theory Spec2Isabelle
  imports Main
begin

section \<open>Data model\<close>

text \<open>
  A shallow embedding of \<^verbatim>\<open>src/blockchain.js\<close> (class \<^verbatim>\<open>Blockchain\<close>).
  Each operation is given first as the source runs it when nothing else is in flight:
  the call together with the work it schedules, up to its settled promise and the updated
  object state. The section on the event loop then splits \<^verbatim>\<open>_addBlock\<close> at its
  \<^verbatim>\<open>await\<close>, so that calls made while an append is pending are covered as well.
\<close>

text \<open>
  JavaScript values as far as the block bodies need them: the payload handed to
  \<^verbatim>\<open>new Block(data)\<close> and what \<^verbatim>\<open>getBData()\<close> gives back.
\<close>

datatype json =
    JNull
  | JBool bool
  | JNum int
  | JStr string
  | JArr "json list"
  | JObj "(string \<times> json) list"

text \<open>
  A block object: the five fields \<^verbatim>\<open>_addBlock\<close>, \<^verbatim>\<open>validateChain\<close> and the lookups
  read and write. \<^verbatim>\<open>hash\<close> and \<^verbatim>\<open>previousBlockHash\<close> are a string or \<^verbatim>\<open>null\<close>
  (\<open>None\<close>). \<^verbatim>\<open>time\<close> holds the clock in seconds (the source keeps the decimal text
  of the millisecond clock without its last three digits). The body is the encoded
  payload; its encoding \<open>'e\<close> is left open (the source stores hex text).
\<close>

record 'e block =
  hash :: "string option"
  height :: int
  body :: 'e
  time :: int
  previousBlockHash :: "string option"

text \<open>The object state of \<^verbatim>\<open>Blockchain\<close>: \<^verbatim>\<open>this.chain\<close> and \<^verbatim>\<open>this.height\<close>.\<close>

record 'e blockchain =
  chainArr :: "'e block list"
  chainHeight :: int

text \<open>
  A promise after the event loop has drained: resolved with a value, rejected with a
  message, or never settled (an exception thrown inside an \<^verbatim>\<open>async\<close> executor rejects
  only the executor's own promise, so neither \<^verbatim>\<open>resolve\<close> nor \<^verbatim>\<open>reject\<close> is called).
\<close>

datatype 'a promise = Resolved 'a | Rejected string | Pending

text \<open>The entries \<^verbatim>\<open>validateChain\<close> pushes on its \<^verbatim>\<open>errorLog\<close>, with the values
  their messages interpolate.\<close>

datatype verror =
    BrokenChain int
  | TamperingDetected int "string option"

section \<open>The Block class\<close>

text \<open>
  Modelled from the spec: the constructor of \<^verbatim>\<open>block.js\<close> (not among the sources).
  A new block holds the encoded payload and has no hash and no predecessor hash yet
  (the sentinel); \<open>enc\<close> stands for the reversible body encoding.
\<close>

definition newBlock :: "(json \<Rightarrow> 'e) \<Rightarrow> json \<Rightarrow> 'e block" where
  "newBlock enc data =
     \<lparr>hash = None, height = 0, body = enc data, time = 0, previousBlockHash = None\<rparr>"

text \<open>
  Modelled from the spec: \<^verbatim>\<open>Block.validate()\<close> of \<^verbatim>\<open>block.js\<close> (not among the
  sources). It recomputes the hash over the block's state without the hash field and
  compares with the stored hash. \<open>H\<close> stands for
  \<^verbatim>\<open>SHA256(JSON.stringify(block)).toString()\<close>, the digest of all fields of a block object.
\<close>

definition recomputeHash :: "('e block \<Rightarrow> string) \<Rightarrow> 'e block \<Rightarrow> string" where
  "recomputeHash H b = H (b\<lparr>hash := None\<rparr>)"

definition validate :: "('e block \<Rightarrow> string) \<Rightarrow> 'e block \<Rightarrow> bool" where
  "validate H b = (hash b = Some (recomputeHash H b))"

text \<open>
  Modelled from the spec: \<^verbatim>\<open>Block.getBData()\<close> of \<^verbatim>\<open>block.js\<close> (not among the
  sources). It decodes the body; \<open>None\<close> is a body that does not decode.
\<close>

definition getBData :: "('e \<Rightarrow> json option) \<Rightarrow> 'e block \<Rightarrow> json option" where
  "getBData dec b = dec (body b)"

section \<open>JavaScript helpers\<close>

text \<open>Truthiness of a value, as \<^verbatim>\<open>if (blockBody)\<close> tests it.\<close>

fun truthy :: "json \<Rightarrow> bool" where
  "truthy JNull = False"
| "truthy (JBool b) = b"
| "truthy (JNum n) = (n \<noteq> 0)"
| "truthy (JStr s) = (s \<noteq> [])"
| "truthy (JArr _) = True"
| "truthy (JObj _) = True"

text \<open>Property access \<^verbatim>\<open>v.name\<close>; \<open>None\<close> is \<^verbatim>\<open>undefined\<close>.\<close>

fun getProp :: "json \<Rightarrow> string \<Rightarrow> json option" where
  "getProp (JObj kvs) k = map_of kvs k"
| "getProp _ k = None"

text \<open>\<^verbatim>\<open>s.split(c)\<close> for a one-character separator.\<close>

fun split :: "char \<Rightarrow> string \<Rightarrow> string list" where
  "split c [] = [[]]"
| "split c (x # xs) =
     (if x = c then [] # split c xs
      else (case split c xs of
              [] \<Rightarrow> [[x]]
            | f # fs \<Rightarrow> (x # f) # fs))"

text \<open>\<^verbatim>\<open>xs[i]\<close> on an array: \<open>None\<close> is \<^verbatim>\<open>undefined\<close>.\<close>

definition at :: "'a list \<Rightarrow> nat \<Rightarrow> 'a option" where
  "at xs i = (if i < length xs then Some (xs ! i) else None)"

text \<open>
  \<^verbatim>\<open>parseInt(s)\<close> without a radix: leading white space is skipped, then an optional
  sign, then an optional \<^verbatim>\<open>0x\<close> prefix (radix 16), then the longest run of digits;
  \<open>None\<close> is \<^verbatim>\<open>NaN\<close>. A string is its UTF-8 bytes, so the white space and line
  terminators of the language are the byte sequences of \<open>whiteSpace\<close> (TAB, LF, VT, FF,
  CR, SP, U+00A0, U+1680, U+2000 to U+200A, U+2028, U+2029, U+202F, U+205F, U+3000,
  U+FEFF). The result is the exact integer; the source's comparison
  \<^verbatim>\<open>currentTime - messageTime < 300\<close> has the same outcome on it as on the rounded
  double.
\<close>

definition whiteSpace :: "string list" where
  "whiteSpace =
     [[CHR 0x09], [CHR 0x0A], [CHR 0x0B], [CHR 0x0C], [CHR 0x0D], [CHR 0x20],
      [CHR 0xC2, CHR 0xA0],
      [CHR 0xE1, CHR 0x9A, CHR 0x80],
      [CHR 0xE2, CHR 0x80, CHR 0x80], [CHR 0xE2, CHR 0x80, CHR 0x81],
      [CHR 0xE2, CHR 0x80, CHR 0x82], [CHR 0xE2, CHR 0x80, CHR 0x83],
      [CHR 0xE2, CHR 0x80, CHR 0x84], [CHR 0xE2, CHR 0x80, CHR 0x85],
      [CHR 0xE2, CHR 0x80, CHR 0x86], [CHR 0xE2, CHR 0x80, CHR 0x87],
      [CHR 0xE2, CHR 0x80, CHR 0x88], [CHR 0xE2, CHR 0x80, CHR 0x89],
      [CHR 0xE2, CHR 0x80, CHR 0x8A],
      [CHR 0xE2, CHR 0x80, CHR 0xA8], [CHR 0xE2, CHR 0x80, CHR 0xA9],
      [CHR 0xE2, CHR 0x80, CHR 0xAF],
      [CHR 0xE2, CHR 0x81, CHR 0x9F],
      [CHR 0xE3, CHR 0x80, CHR 0x80],
      [CHR 0xEF, CHR 0xBB, CHR 0xBF]]"

function trimStart :: "string \<Rightarrow> string" where
  "trimStart s =
     (case List.find (\<lambda>w. take (length w) s = w) whiteSpace of
        None \<Rightarrow> s
      | Some w \<Rightarrow> trimStart (drop (length w) s))"
  by pat_completeness auto
termination
proof (relation "measure length")
  show "wf (measure length)" by simp
next
  fix s :: string and w
  assume "List.find (\<lambda>w. take (length w) s = w) whiteSpace = Some w"
  then have m: "w \<in> set whiteSpace" and t: "take (length w) s = w"
    by (auto simp: find_Some_iff)
  from m have n: "w \<noteq> []" by (auto simp: whiteSpace_def)
  with t have "s \<noteq> []" by auto
  with n show "(drop (length w) s, s) \<in> measure length" by simp
qed

definition digitValue :: "char \<Rightarrow> nat option" where
  "digitValue c =
     (let n = (of_char c :: nat) in
      if 48 \<le> n \<and> n \<le> 57 then Some (n - 48)
      else if 97 \<le> n \<and> n \<le> 122 then Some (n - 87)
      else if 65 \<le> n \<and> n \<le> 90 then Some (n - 55)
      else None)"

definition isDigit :: "nat \<Rightarrow> char \<Rightarrow> bool" where
  "isDigit radix c = (case digitValue c of None \<Rightarrow> False | Some d \<Rightarrow> d < radix)"

fun digitsValue :: "nat \<Rightarrow> nat \<Rightarrow> string \<Rightarrow> nat" where
  "digitsValue radix acc [] = acc"
| "digitsValue radix acc (c # cs) =
     digitsValue radix (acc * radix + (case digitValue c of None \<Rightarrow> 0 | Some d \<Rightarrow> d)) cs"

definition stripSign :: "string \<Rightarrow> int \<times> string" where
  "stripSign s =
     (case s of
        [] \<Rightarrow> (1, s)
      | c # r \<Rightarrow> if c = CHR ''-'' then (- 1, r) else if c = CHR ''+'' then (1, r) else (1, s))"

definition stripPrefix :: "string \<Rightarrow> nat \<times> string" where
  "stripPrefix s =
     (if take 2 s = ''0x'' \<or> take 2 s = ''0X'' then (16, drop 2 s) else (10, s))"

definition parseInt :: "string option \<Rightarrow> int option" where
  "parseInt arg =
     (case arg of
        None \<Rightarrow> None
      | Some inputString \<Rightarrow>
          (let (sign, s) = stripSign (trimStart inputString);
               (radix, s') = stripPrefix s;
               z = takeWhile (isDigit radix) s'
           in if z = [] then None else Some (sign * int (digitsValue radix 0 z))))"

section \<open>The Blockchain class\<close>

text \<open>
  \<^verbatim>\<open>validateChain\<close>, lines 210-243. The loop visits every block of the chain with the
  error log as accumulator. For a block that validates and has \<^verbatim>\<open>height > 0\<close> the
  predecessor is the first block of the whole chain whose height is one less; when there
  is none, \<^verbatim>\<open>previousBlock.hash\<close> throws and the promise never settles (\<open>None\<close>).
\<close>

fun validateLoop ::
  "('e block \<Rightarrow> string) \<Rightarrow> 'e block list \<Rightarrow> 'e block list \<Rightarrow> verror list \<Rightarrow> verror list option"
where
  "validateLoop H ch [] errorLog = Some errorLog"
| "validateLoop H ch (b # bs) errorLog =
     (if validate H b then
        (if height b > 0 then
           (case at (filter (\<lambda>c. height c = height b - 1) ch) 0 of
              None \<Rightarrow> None
            | Some previousBlock \<Rightarrow>
                if previousBlockHash b \<noteq> hash previousBlock
                then validateLoop H ch bs (errorLog @ [BrokenChain (height b)])
                else validateLoop H ch bs errorLog)
         else validateLoop H ch bs errorLog)
      else validateLoop H ch bs (errorLog @ [TamperingDetected (height b) (hash b)]))"

text \<open>The promise resolves with the error log when it is not empty, else with \<^verbatim>\<open>null\<close>.\<close>

definition validateChain ::
  "('e block \<Rightarrow> string) \<Rightarrow> 'e block list \<Rightarrow> verror list option promise"
where
  "validateChain H ch =
     (case validateLoop H ch ch [] of
        None \<Rightarrow> Pending
      | Some errorLog \<Rightarrow> if length errorLog > 0 then Resolved (Some errorLog) else Resolved None)"

text \<open>
  \<^verbatim>\<open>_addBlock\<close>, lines 63-80. \<open>sealBlock\<close> is the block after lines 66-71: height,
  time, predecessor hash when the chain is not empty, then the hash over the block as it
  stands (its hash field included, with the value the block arrived with). \<open>now\<close> is
  the clock in seconds. \<open>addBlock\<close> is the whole call with no other call made before its
  pending part has run. The block object is not an element of the chain (the source
  passes newly constructed blocks).
\<close>

definition sealBlock ::
  "('e block \<Rightarrow> string) \<Rightarrow> int \<Rightarrow> 'e block \<Rightarrow> 'e blockchain \<Rightarrow> 'e block"
where
  "sealBlock H now blk st =
     (let b1 = blk\<lparr>height := int (length (chainArr st))\<rparr>;
          b2 = b1\<lparr>time := now\<rparr>;
          b3 = (if length (chainArr st) > 0
                then b2\<lparr>previousBlockHash := hash (chainArr st ! (length (chainArr st) - 1))\<rparr>
                else b2)
      in b3\<lparr>hash := Some (H b3)\<rparr>)"

definition addBlock ::
  "('e block \<Rightarrow> string) \<Rightarrow> int \<Rightarrow> 'e block \<Rightarrow> 'e blockchain
     \<Rightarrow> 'e block promise \<times> 'e blockchain"
where
  "addBlock H now blk st =
     (let b = sealBlock H now blk st;
          ch = chainArr st @ [b];
          st' = st\<lparr>chainArr := ch, chainHeight := int (length ch) - 1\<rparr>
      in (case validateChain H ch of
            Resolved _ \<Rightarrow> Resolved b
          | Rejected _ \<Rightarrow> Rejected ''Invalid Chain. Cannot Add this Block.''
          | Pending \<Rightarrow> Pending,
          st'))"

text \<open>\<^verbatim>\<open>initializeChain\<close>, lines 35-40, and the constructor, lines 24-28, each with
  the append it schedules already run and no call made in between. \<open>newBlockchain\<close> is
  therefore the object one tick after the constructor has returned; the constructor as it
  returns is \<open>construct\<close> in the section on the event loop.\<close>

definition genesisData :: json where
  "genesisData = JObj [(''data'', JStr ''Genesis Block'')]"

definition initializeChain ::
  "('e block \<Rightarrow> string) \<Rightarrow> (json \<Rightarrow> 'e) \<Rightarrow> int \<Rightarrow> 'e blockchain \<Rightarrow> 'e blockchain"
where
  "initializeChain H enc now st =
     (if chainHeight st = - 1
      then snd (addBlock H now (newBlock enc genesisData) st)
      else st)"

definition newBlockchain ::
  "('e block \<Rightarrow> string) \<Rightarrow> (json \<Rightarrow> 'e) \<Rightarrow> int \<Rightarrow> 'e blockchain"
where
  "newBlockchain H enc now =
     initializeChain H enc now \<lparr>chainArr = [], chainHeight = - 1\<rparr>"


text \<open>
  \<^verbatim>\<open>submitStar\<close>, lines 118-142. \<open>verify\<close> stands for \<^verbatim>\<open>bitcoinMessage.verify\<close>;
  \<open>None\<close> is a call that throws (the library does on a malformed address or signature),
  which leaves the promise unsettled. The promise returned by \<^verbatim>\<open>_addBlock\<close> is dropped;
  the caller is handed the block object, which is the sealed block by then. The clock
  is read twice: \<open>currentTime\<close> on line 122 and \<open>blockTime\<close> by \<^verbatim>\<open>_addBlock\<close> on line 67.
\<close>

definition notVerifiedMsg :: string where
  "notVerifiedMsg = ''The Message is not Verified''"

definition expiredMsg :: string where
  "expiredMsg =
     ''Please submit a star within 5 minutes of the signature ownership verification.''"

definition starData :: "string \<Rightarrow> json \<Rightarrow> json" where
  "starData address star = JObj [(''owner'', JStr address), (''star'', star)]"

definition elapsedOk :: "int \<Rightarrow> int option \<Rightarrow> bool" where
  "elapsedOk currentTime messageTime =
     (case messageTime of None \<Rightarrow> False | Some t \<Rightarrow> currentTime - t < 300)"

definition submitStar ::
  "('e block \<Rightarrow> string) \<Rightarrow> (json \<Rightarrow> 'e) \<Rightarrow> (string \<Rightarrow> string \<Rightarrow> string \<Rightarrow> bool option)
     \<Rightarrow> int \<Rightarrow> int \<Rightarrow> string \<Rightarrow> string \<Rightarrow> string \<Rightarrow> json \<Rightarrow> 'e blockchain
     \<Rightarrow> 'e block promise \<times> 'e blockchain"
where
  "submitStar H enc verify currentTime blockTime address message signature star st =
     (let messageTime = parseInt (at (split CHR '':'' message) 1)
      in if elapsedOk currentTime messageTime then
           (case verify message address signature of
              None \<Rightarrow> (Pending, st)
            | Some True \<Rightarrow>
                (let blk = newBlock enc (starData address star)
                 in (Resolved (sealBlock H blockTime blk st), snd (addBlock H blockTime blk st)))
            | Some False \<Rightarrow> (Rejected notVerifiedMsg, st))
         else (Rejected expiredMsg, st))"


text \<open>
  \<^verbatim>\<open>getStarsByWalletAddress\<close>, lines 186-202: the \<^verbatim>\<open>forEach\<close> callbacks run in chain
  order, each pushing the decoded body on \<^verbatim>\<open>stars\<close> when it is truthy and its
  \<^verbatim>\<open>owner\<close> is the address; a body that does not decode ends its own callback only.
  The value is the array once every callback has run.
\<close>

fun starsLoop :: "('e \<Rightarrow> json option) \<Rightarrow> string \<Rightarrow> 'e block list \<Rightarrow> json list \<Rightarrow> json list" where
  "starsLoop dec address [] stars = stars"
| "starsLoop dec address (b # bs) stars =
     (case getBData dec b of
        None \<Rightarrow> starsLoop dec address bs stars
      | Some blockBody \<Rightarrow>
          if truthy blockBody then
            (if getProp blockBody ''owner'' = Some (JStr address)
             then starsLoop dec address bs (stars @ [blockBody])
             else starsLoop dec address bs stars)
          else starsLoop dec address bs stars)"

definition getStarsByWalletAddress ::
  "('e \<Rightarrow> json option) \<Rightarrow> 'e blockchain \<Rightarrow> string \<Rightarrow> json list promise"
where
  "getStarsByWalletAddress dec st address = Resolved (starsLoop dec address (chainArr st) [])"

section \<open>Specification-level notions\<close>

text \<open>The predecessor \<^verbatim>\<open>validateChain\<close> looks up for a block: the first block of the
  chain whose height is one less.\<close>

definition predecessor :: "'e block list \<Rightarrow> 'e block \<Rightarrow> 'e block option" where
  "predecessor ch b = at (filter (\<lambda>c. height c = height b - 1) ch) 0"

text \<open>A tampered block: the recomputed hash differs from the stored hash.\<close>

definition tampered :: "('e block \<Rightarrow> string) \<Rightarrow> 'e block \<Rightarrow> bool" where
  "tampered H b = (hash b \<noteq> Some (recomputeHash H b))"

text \<open>A mis-linked block: its height is positive and its \<^verbatim>\<open>previousBlockHash\<close> differs
  from the stored hash of its predecessor.\<close>

definition misLinked :: "'e block list \<Rightarrow> 'e block \<Rightarrow> bool" where
  "misLinked ch b =
     (height b > 0 \<and>
      (case predecessor ch b of None \<Rightarrow> False | Some p \<Rightarrow> previousBlockHash b \<noteq> hash p))"

text \<open>The lookup of a predecessor fails: the block passes the hash check, has a
  positive height, and no block of the chain has the height before it.\<close>

definition orphan :: "('e block \<Rightarrow> string) \<Rightarrow> 'e block list \<Rightarrow> 'e block \<Rightarrow> bool" where
  "orphan H ch b = (\<not> tampered H b \<and> height b > 0 \<and> predecessor ch b = None)"

text \<open>The errors one block contributes, as the specification words them: both checks,
  each on its own.\<close>

definition specBlockErrors :: "('e block \<Rightarrow> string) \<Rightarrow> 'e block list \<Rightarrow> 'e block \<Rightarrow> verror list" where
  "specBlockErrors H ch b =
     (if tampered H b then [TamperingDetected (height b) (hash b)] else []) @
     (if misLinked ch b then [BrokenChain (height b)] else [])"

text \<open>The errors one block contributes in the source: the link is looked at only when
  the hash check has passed.\<close>

definition blockErrors :: "('e block \<Rightarrow> string) \<Rightarrow> 'e block list \<Rightarrow> 'e block \<Rightarrow> verror list" where
  "blockErrors H ch b =
     (if tampered H b then [TamperingDetected (height b) (hash b)]
      else if misLinked ch b then [BrokenChain (height b)]
      else [])"



text \<open>The decoded body of a block when its decoded \<^verbatim>\<open>owner\<close> is the address.\<close>

definition ownedBody :: "('e \<Rightarrow> json option) \<Rightarrow> string \<Rightarrow> 'e block \<Rightarrow> json option" where
  "ownedBody dec address b =
     (case getBData dec b of
        None \<Rightarrow> None
      | Some v \<Rightarrow> if getProp v ''owner'' = Some (JStr address) then Some v else None)"

text \<open>The result of the owner query as the specification words it: the \<^verbatim>\<open>star\<close>
  field of every block whose decoded owner is the address (\<open>None\<close> for a body without
  a \<^verbatim>\<open>star\<close> field).\<close>

definition specStarsByOwner :: "('e \<Rightarrow> json option) \<Rightarrow> 'e blockchain \<Rightarrow> string \<Rightarrow> json option list" where
  "specStarsByOwner dec st address =
     map (\<lambda>v. getProp v ''star'') (List.map_filter (ownedBody dec address) (chainArr st))"

section \<open>The event loop\<close>










section \<open>Serial runs\<close>







section \<open>Concrete primitives and states for the examples\<close>

text \<open>A toy digest over the hash, height and predecessor fields, the identity as body
  encoding, and a verifier that accepts the signature \<^verbatim>\<open>sig\<close>.\<close>

definition demoDigest :: "json block \<Rightarrow> string" where
  "demoDigest b =
     (case hash b of None \<Rightarrow> ''-'' | Some h \<Rightarrow> h) @ ''#'' @
     replicate (nat (height b)) CHR ''I'' @ ''#'' @
     (case previousBlockHash b of None \<Rightarrow> ''-'' | Some p \<Rightarrow> p)"

definition demoEnc :: "json \<Rightarrow> json" where
  "demoEnc v = v"

definition demoDec :: "json \<Rightarrow> json option" where
  "demoDec v = Some v"

definition demoVerify :: "string \<Rightarrow> string \<Rightarrow> string \<Rightarrow> bool option" where
  "demoVerify message address signature = Some (signature = ''sig'')"

definition demoStar :: json where
  "demoStar = JObj [(''dec'', JStr ''68''), (''ra'', JStr ''16h''), (''story'', JStr ''s1'')]"

text \<open>The genesis block and a star block as the toy primitives seal them.\<close>

definition demoGenesis :: "json block" where
  "demoGenesis =
     \<lparr>hash = Some ''-##-'', height = 0, body = genesisData, time = 1000,
      previousBlockHash = None\<rparr>"

definition demoBlock1 :: "json block" where
  "demoBlock1 =
     \<lparr>hash = Some ''-#I#-##-'', height = 1, body = starData ''A'' demoStar, time = 1299,
      previousBlockHash = Some ''-##-''\<rparr>"

text \<open>A chain whose block 1 has both its stored hash and its link overwritten.\<close>

definition demoBadChain :: "json block list" where
  "demoBadChain =
     [demoGenesis, demoBlock1\<lparr>hash := Some ''forged'', previousBlockHash := Some ''elsewhere''\<rparr>]"

text \<open>A state whose genesis block has its stored hash overwritten.\<close>

definition demoTampered :: "json blockchain" where
  "demoTampered = \<lparr>chainArr = [demoGenesis\<lparr>hash := Some ''forged''\<rparr>], chainHeight = 0\<rparr>"

text \<open>The state after construction at second 1000, and after a star submitted by
  \<^verbatim>\<open>A\<close> at second 1299 with a challenge issued at second 1000.\<close>

definition demoState1 :: "json blockchain" where
  "demoState1 = newBlockchain demoDigest demoEnc 1000"

definition demoState2 :: "json blockchain" where
  "demoState2 =
     snd (submitStar demoDigest demoEnc demoVerify 1299 1299 ''A'' ''A:1000:starRegistry''
            ''sig'' demoStar demoState1)"







section \<open>The validation loop\<close>

lemma validate_tampered: "validate H b = (\<not> tampered H b)"
  by (simp add: validate_def tampered_def)

lemma validateLoop_collect:
  "\<forall>b \<in> set bs. \<not> orphan H ch b \<Longrightarrow>
   validateLoop H ch bs errorLog = Some (errorLog @ concat (map (blockErrors H ch) bs))"
proof (induction bs arbitrary: errorLog)
  case Nil
  show ?case by simp
next
  case (Cons b bs)
  have rest: "\<And>l. validateLoop H ch bs l = Some (l @ concat (map (blockErrors H ch) bs))"
    using Cons by simp
  have b: "\<not> orphan H ch b" using Cons.prems by simp
  show ?case
  proof (cases "tampered H b")
    case True
    then have "blockErrors H ch b = [TamperingDetected (height b) (hash b)]"
      by (simp add: blockErrors_def)
    then show ?thesis using True
      by (simp add: validate_tampered rest)
  next
    case False
    note nt = this
    show ?thesis
    proof (cases "height b > 0")
      case False
      then have "blockErrors H ch b = []" using nt
        by (simp add: blockErrors_def misLinked_def)
      then show ?thesis using nt False
        by (simp add: validate_tampered rest)
    next
      case True
      then obtain p where p: "predecessor ch b = Some p"
        using b nt by (auto simp: orphan_def)
      then have p': "at (filter (\<lambda>c. height c = height b - 1) ch) 0 = Some p"
        by (simp add: predecessor_def)
      have "blockErrors H ch b =
            (if previousBlockHash b \<noteq> hash p then [BrokenChain (height b)] else [])"
        using nt True p by (simp add: blockErrors_def misLinked_def)
      then show ?thesis using nt True
        by (simp add: validate_tampered rest p')
    qed
  qed
qed

lemma validateLoop_orphan:
  "\<exists>b \<in> set bs. orphan H ch b \<Longrightarrow> validateLoop H ch bs errorLog = None"
proof (induction bs arbitrary: errorLog)
  case Nil
  then show ?case by simp
next
  case (Cons b bs)
  show ?case
  proof (cases "orphan H ch b")
    case True
    then show ?thesis
      by (simp add: orphan_def validate_tampered predecessor_def)
  next
    case False
    then have "\<exists>b \<in> set bs. orphan H ch b" using Cons.prems by simp
    then have "\<And>l. validateLoop H ch bs l = None" by (rule Cons.IH)
    then show ?thesis by (simp split: option.splits)
  qed
qed





section \<open>Sealing and appending\<close>

lemma addBlock_state:
  "snd (addBlock H now blk st) =
     st\<lparr>chainArr := chainArr st @ [sealBlock H now blk st],
        chainHeight := int (length (chainArr st))\<rparr>"
  by (simp add: addBlock_def Let_def)

lemma sealBlock_fields:
  "height (sealBlock H now blk st) = int (length (chainArr st))"
  "time (sealBlock H now blk st) = now"
  "body (sealBlock H now blk st) = body blk"
  "previousBlockHash (sealBlock H now blk st) =
     (if chainArr st = [] then previousBlockHash blk
      else hash (chainArr st ! (length (chainArr st) - 1)))"
  by (simp_all add: sealBlock_def Let_def)




lemma newBlock_fields:
  "hash (newBlock enc data) = None"
  "previousBlockHash (newBlock enc data) = None"
  "body (newBlock enc data) = enc data"
  by (simp_all add: newBlock_def)

section \<open>The shape of serial runs\<close>





lemma newBlockchain_eq:
  "newBlockchain H enc now =
     \<lparr>chainArr = [sealBlock H now (newBlock enc genesisData) \<lparr>chainArr = [], chainHeight = - 1\<rparr>],
      chainHeight = 0\<rparr>"
  by (simp add: newBlockchain_def initializeChain_def addBlock_state)









section \<open>Serial runs inside the event loop\<close>










section \<open>Stored blocks in the event loop\<close>













section \<open>The example states\<close>

lemma demoState1_eq: "demoState1 = \<lparr>chainArr = [demoGenesis], chainHeight = 0\<rparr>"
  by (simp add: demoState1_def newBlockchain_eq sealBlock_def newBlock_def demoDigest_def
      demoEnc_def demoGenesis_def)

lemma demoMessage_time: "parseInt (at (split CHR '':'' ''A:1000:starRegistry'') 1) = Some 1000"
  by code_simp

lemma demoState2_eq: "demoState2 = \<lparr>chainArr = [demoGenesis, demoBlock1], chainHeight = 1\<rparr>"
  unfolding demoState2_def submitStar_def demoMessage_time demoState1_eq
  by (simp add: elapsedOk_def demoVerify_def addBlock_state sealBlock_def newBlock_def
      demoDigest_def demoEnc_def demoGenesis_def demoBlock1_def)












section \<open>Appending a block\<close>

lemma demoTampered_sealed:
  "sealBlock demoDigest 1299 (newBlock demoEnc (starData ''A'' demoStar)) demoTampered =
     \<lparr>hash = Some ''-#I#forged'', height = 1, body = starData ''A'' demoStar, time = 1299,
      previousBlockHash = Some ''forged''\<rparr>"
  by (simp add: sealBlock_def newBlock_def demoTampered_def demoDigest_def demoEnc_def)

lemma demoTampered_validateChain:
  "validateChain demoDigest
     (chainArr demoTampered @
      [sealBlock demoDigest 1299 (newBlock demoEnc (starData ''A'' demoStar)) demoTampered]) =
   Resolved (Some [TamperingDetected 0 (Some ''forged'')])"
  unfolding demoTampered_sealed
  by (simp add: demoTampered_def demoGenesis_def validateChain_def validate_def
      recomputeHash_def demoDigest_def at_def)

text \<open>
  C1 (amended). When the validation that \<^verbatim>\<open>_addBlock\<close> runs on the extended chain
  reports errors, the append is not undone: the sealed block stays as the last element
  of the chain and \<^verbatim>\<open>height\<close> is the new last index. The source has no step that
  removes a block.
\<close>

theorem addBlock_retains_block:
  assumes "validateChain H (chainArr st @ [sealBlock H now blk st]) = Resolved (Some errs)"
  shows "chainArr (snd (addBlock H now blk st)) = chainArr st @ [sealBlock H now blk st] \<and>
         chainHeight (snd (addBlock H now blk st)) = int (length (chainArr st))"
  using assms by (simp add: addBlock_def Let_def)

text \<open>The amended claim at a chain whose genesis block has a forged hash.\<close>

theorem addBlock_retains_block_witness:
  "validateChain demoDigest
     (chainArr demoTampered @
      [sealBlock demoDigest 1299 (newBlock demoEnc (starData ''A'' demoStar)) demoTampered]) =
   Resolved (Some [TamperingDetected 0 (Some ''forged'')]) \<and>
   length (chainArr (snd (addBlock demoDigest 1299 (newBlock demoEnc (starData ''A'' demoStar))
     demoTampered))) = 2 \<and>
   chainHeight (snd (addBlock demoDigest 1299 (newBlock demoEnc (starData ''A'' demoStar))
     demoTampered)) = 1"
  using addBlock_retains_block [OF demoTampered_validateChain] demoTampered_validateChain
  by (simp add: demoTampered_def)

text \<open>
  C1 as stated fails: on that chain the validation after the append reports the forged
  genesis block, yet the chain and the height have changed and the promise resolves with
  the block instead of rejecting.
\<close>

theorem addBlock_rollback_counterexample:
  "validateChain demoDigest
     (chainArr (snd (addBlock demoDigest 1299 (newBlock demoEnc (starData ''A'' demoStar))
        demoTampered))) = Resolved (Some [TamperingDetected 0 (Some ''forged'')]) \<and>
   chainArr (snd (addBlock demoDigest 1299 (newBlock demoEnc (starData ''A'' demoStar))
        demoTampered)) \<noteq> chainArr demoTampered \<and>
   chainHeight (snd (addBlock demoDigest 1299 (newBlock demoEnc (starData ''A'' demoStar))
        demoTampered)) \<noteq> chainHeight demoTampered \<and>
   fst (addBlock demoDigest 1299 (newBlock demoEnc (starData ''A'' demoStar)) demoTampered) =
     Resolved (sealBlock demoDigest 1299 (newBlock demoEnc (starData ''A'' demoStar)) demoTampered)"
  using demoTampered_validateChain
  by (simp add: addBlock_def Let_def demoTampered_def)

section \<open>Validating the chain\<close>

lemma demoBadChain_no_orphan: "\<forall>b \<in> set demoBadChain. \<not> orphan demoDigest demoBadChain b"
  by (simp add: demoBadChain_def demoGenesis_def demoBlock1_def orphan_def tampered_def
      recomputeHash_def demoDigest_def)

text \<open>
  C2 (amended). On every chain \<^verbatim>\<open>validateChain\<close> visits every block in one pass and
  never stops at an error: the log is the concatenation, in chain order, of what each
  block contributes. A block whose recomputed hash differs from its stored hash
  contributes a tampered-block error; a block that passes the hash check and has
  \<^verbatim>\<open>height > 0\<close> contributes a broken-link error when its \<^verbatim>\<open>previousBlockHash\<close>
  differs from the stored hash of the block at the height before it. A block that is both
  tampered and mis-linked contributes the tampered-block error only. (When a block that
  passes the hash check has a positive height and no block has the height before it, the
  lookup throws and the promise never settles.)
\<close>

theorem validateChain_all_blocks:
  "validateChain H ch =
     (if \<exists>b \<in> set ch. orphan H ch b then Pending
      else Resolved (if concat (map (blockErrors H ch) ch) = [] then None
                     else Some (concat (map (blockErrors H ch) ch))))"
proof (cases "\<exists>b \<in> set ch. orphan H ch b")
  case True
  then have "validateLoop H ch ch [] = None" by (rule validateLoop_orphan)
  then show ?thesis using True by (simp add: validateChain_def)
next
  case False
  then have "\<forall>b \<in> set ch. \<not> orphan H ch b" by simp
  from validateLoop_collect [OF this, of "[]"]
  show ?thesis using False by (simp add: validateChain_def)
qed

text \<open>The amended claim at a chain whose block 1 is forged and mis-linked.\<close>

theorem validateChain_all_blocks_witness:
  "validateChain demoDigest demoBadChain =
     Resolved (Some [TamperingDetected 1 (Some ''forged'')])"
  using validateChain_all_blocks [of demoDigest demoBadChain] demoBadChain_no_orphan
  by (simp add: demoBadChain_def demoGenesis_def demoBlock1_def blockErrors_def tampered_def
      misLinked_def predecessor_def at_def recomputeHash_def demoDigest_def)

text \<open>
  C2 as stated fails: block 1 of that chain is both tampered and mis-linked, the two
  independent checks of the claim give two errors, and the source logs the tampering only.
\<close>

theorem validateChain_tampered_mislinked_counterexample:
  "tampered demoDigest (demoBadChain ! 1) \<and>
   misLinked demoBadChain (demoBadChain ! 1) \<and>
   validateChain demoDigest demoBadChain =
     Resolved (Some [TamperingDetected 1 (Some ''forged'')]) \<and>
   concat (map (specBlockErrors demoDigest demoBadChain) demoBadChain) =
     [TamperingDetected 1 (Some ''forged''), BrokenChain 1]"
  by (simp add: demoBadChain_def demoGenesis_def demoBlock1_def tampered_def misLinked_def
      predecessor_def at_def recomputeHash_def demoDigest_def validateChain_def validate_def
      specBlockErrors_def)

lemma blockErrors_Nil: "blockErrors H ch b = [] \<longleftrightarrow> \<not> tampered H b \<and> \<not> misLinked ch b"
  by (simp add: blockErrors_def)

lemma validateChain_not_empty_list: "validateChain H ch \<noteq> Resolved (Some [])"
  by (simp add: validateChain_def split: option.splits)

lemma demoGood_facts:
  "\<forall>b \<in> set [demoGenesis, demoBlock1].
     \<not> tampered demoDigest b \<and> \<not> orphan demoDigest [demoGenesis, demoBlock1] b \<and>
     \<not> misLinked [demoGenesis, demoBlock1] b"
  by (simp add: demoGenesis_def demoBlock1_def tampered_def orphan_def misLinked_def
      predecessor_def at_def recomputeHash_def demoDigest_def)

lemma demoBad_violation:
  "\<exists>b \<in> set demoBadChain. tampered demoDigest b \<or> misLinked demoBadChain b"
  by (simp add: demoBadChain_def demoGenesis_def demoBlock1_def tampered_def
      recomputeHash_def demoDigest_def)

lemma demoOrphan: "\<exists>b \<in> set [demoBlock1]. orphan demoDigest [demoBlock1] b"
  by (simp add: demoBlock1_def orphan_def tampered_def recomputeHash_def demoDigest_def
      predecessor_def at_def)

text \<open>
  C3 (amended). \<^verbatim>\<open>validateChain\<close> never resolves with the empty sequence. When some
  block that passes the hash check has a positive height and no block has the height
  before it, the lookup throws and the promise never settles. On every other chain the
  promise resolves: with \<^verbatim>\<open>null\<close> when the chain has no violation, and with the
  sequence of errors when it has at least one.
\<close>

theorem validateChain_null_when_valid:
  "validateChain H ch \<noteq> Resolved (Some []) \<and>
   ((\<exists>b \<in> set ch. orphan H ch b) \<longrightarrow> validateChain H ch = Pending) \<and>
   ((\<forall>b \<in> set ch. \<not> tampered H b \<and> \<not> orphan H ch b \<and> \<not> misLinked ch b) \<longrightarrow>
      validateChain H ch = Resolved None) \<and>
   ((\<forall>b \<in> set ch. \<not> orphan H ch b) \<and> (\<exists>b \<in> set ch. tampered H b \<or> misLinked ch b) \<longrightarrow>
      validateChain H ch = Resolved (Some (concat (map (blockErrors H ch) ch))))"
proof (intro conjI impI)
  show "validateChain H ch \<noteq> Resolved (Some [])" by (rule validateChain_not_empty_list)
next
  assume "\<exists>b \<in> set ch. orphan H ch b"
  then have "validateLoop H ch ch [] = None" by (rule validateLoop_orphan)
  then show "validateChain H ch = Pending" by (simp add: validateChain_def)
next
  assume a: "\<forall>b \<in> set ch. \<not> tampered H b \<and> \<not> orphan H ch b \<and> \<not> misLinked ch b"
  then have "\<forall>b \<in> set ch. \<not> orphan H ch b" by simp
  from validateLoop_collect [OF this, of "[]"]
  have l: "validateLoop H ch ch [] = Some (concat (map (blockErrors H ch) ch))" by simp
  have "concat (map (blockErrors H ch) ch) = []" using a by (simp add: blockErrors_Nil)
  then show "validateChain H ch = Resolved None" using l by (simp add: validateChain_def)
next
  assume a: "(\<forall>b \<in> set ch. \<not> orphan H ch b) \<and> (\<exists>b \<in> set ch. tampered H b \<or> misLinked ch b)"
  then have "\<forall>b \<in> set ch. \<not> orphan H ch b" by simp
  from validateLoop_collect [OF this, of "[]"]
  have l: "validateLoop H ch ch [] = Some (concat (map (blockErrors H ch) ch))" by simp
  have "concat (map (blockErrors H ch) ch) \<noteq> []" using a by (auto simp: blockErrors_Nil)
  then show "validateChain H ch = Resolved (Some (concat (map (blockErrors H ch) ch)))"
    using l by (simp add: validateChain_def)
qed

text \<open>The amended claim at the sound two-block chain, at the forged one, and at a chain
  whose only block has height 1.\<close>

theorem validateChain_null_when_valid_witness:
  "validateChain demoDigest [demoGenesis, demoBlock1] = Resolved None \<and>
   validateChain demoDigest demoBadChain =
     Resolved (Some (concat (map (blockErrors demoDigest demoBadChain) demoBadChain))) \<and>
   validateChain demoDigest [demoBlock1] = Pending"
  using validateChain_null_when_valid [of demoDigest "[demoGenesis, demoBlock1]"]
    validateChain_null_when_valid [of demoDigest demoBadChain]
    validateChain_null_when_valid [of demoDigest "[demoBlock1]"]
    demoGood_facts demoBadChain_no_orphan demoBad_violation demoOrphan
  by blast

text \<open>
  C3 as stated fails: the sound two-block chain has no violation, and the promise
  resolves with \<^verbatim>\<open>null\<close>, which is not the empty sequence.
\<close>

theorem validateChain_empty_sequence_counterexample:
  "concat (map (specBlockErrors demoDigest [demoGenesis, demoBlock1])
     [demoGenesis, demoBlock1]) = [] \<and>
   validateChain demoDigest [demoGenesis, demoBlock1] = Resolved None \<and>
   validateChain demoDigest [demoGenesis, demoBlock1] \<noteq> Resolved (Some [])"
  by (simp add: demoGenesis_def demoBlock1_def tampered_def misLinked_def
      predecessor_def at_def recomputeHash_def demoDigest_def validateChain_def validate_def
      specBlockErrors_def)

section \<open>Submitting a star\<close>

text \<open>
  C4. With \<open>messageTime\<close> the integer parsed from the second colon-delimited field of the
  message: when \<open>currentTime - messageTime \<ge> 300\<close> the submission is rejected with the
  expiry message and the chain is untouched, whatever the verifier would answer (the
  verifier is not consulted: the outcome is the same for every \<open>verify\<close>, also one that
  throws); when the difference is at most 299 and the verifier accepts, the promise
  resolves with the sealed block, which is appended; when the verifier refuses, the
  rejection carries a different message.
\<close>

theorem submitStar_freshness:
  assumes "parseInt (at (split CHR '':'' message) 1) = Some messageTime"
  shows "(currentTime - messageTime \<ge> 300 \<longrightarrow>
            submitStar H enc verify currentTime blockTime address message signature star st =
              (Rejected expiredMsg, st)) \<and>
         (currentTime - messageTime \<le> 299 \<and> verify message address signature = Some True \<longrightarrow>
            submitStar H enc verify currentTime blockTime address message signature star st =
              (Resolved (sealBlock H blockTime (newBlock enc (starData address star)) st),
               st\<lparr>chainArr :=
                     chainArr st @
                     [sealBlock H blockTime (newBlock enc (starData address star)) st],
                   chainHeight := int (length (chainArr st))\<rparr>)) \<and>
         (currentTime - messageTime \<le> 299 \<and> verify message address signature = Some False \<longrightarrow>
            submitStar H enc verify currentTime blockTime address message signature star st =
              (Rejected notVerifiedMsg, st)) \<and>
         notVerifiedMsg \<noteq> expiredMsg"
  using assms
  by (simp add: submitStar_def elapsedOk_def addBlock_state notVerifiedMsg_def expiredMsg_def
      Let_def)

text \<open>C4 at an elapsed time of 300 seconds with a throwing verifier, and at 299 seconds
  with an accepted and with a refused signature.\<close>

theorem submitStar_freshness_witness:
  "submitStar demoDigest demoEnc (\<lambda>m a s. None) 1300 1300 ''A'' ''A:1000:starRegistry'' ''sig''
     demoStar demoState1 = (Rejected expiredMsg, demoState1) \<and>
   submitStar demoDigest demoEnc demoVerify 1299 1299 ''A'' ''A:1000:starRegistry'' ''sig''
     demoStar demoState1 = (Resolved demoBlock1, demoState2) \<and>
   submitStar demoDigest demoEnc demoVerify 1299 1299 ''A'' ''A:1000:starRegistry'' ''forged''
     demoStar demoState1 = (Rejected notVerifiedMsg, demoState1)"
proof -
  have v: "demoVerify ''A:1000:starRegistry'' ''A'' ''sig'' = Some True"
    "demoVerify ''A:1000:starRegistry'' ''A'' ''forged'' = Some False"
    by (simp_all add: demoVerify_def)
  have s: "sealBlock demoDigest 1299 (newBlock demoEnc (starData ''A'' demoStar)) demoState1 =
           demoBlock1"
    by (simp add: demoState1_eq sealBlock_def newBlock_def demoDigest_def demoEnc_def
        demoGenesis_def demoBlock1_def)
  have 1: "submitStar demoDigest demoEnc (\<lambda>m a s. None) 1300 1300 ''A'' ''A:1000:starRegistry''
             ''sig'' demoStar demoState1 = (Rejected expiredMsg, demoState1)"
    using submitStar_freshness [OF demoMessage_time, where currentTime = 1300
        and blockTime = 1300 and H = demoDigest
        and enc = demoEnc and verify = "\<lambda>m a s. None" and address = "''A''"
        and signature = "''sig''" and star = demoStar and st = demoState1]
    by simp
  have 2: "submitStar demoDigest demoEnc demoVerify 1299 1299 ''A'' ''A:1000:starRegistry''
             ''sig'' demoStar demoState1 = (Resolved demoBlock1, demoState2)"
    using submitStar_freshness [OF demoMessage_time, where currentTime = 1299
        and blockTime = 1299 and H = demoDigest
        and enc = demoEnc and verify = demoVerify and address = "''A''"
        and signature = "''sig''" and star = demoStar and st = demoState1] v s
    by (simp add: demoState1_eq demoState2_eq)
  have 3: "submitStar demoDigest demoEnc demoVerify 1299 1299 ''A'' ''A:1000:starRegistry''
             ''forged'' demoStar demoState1 = (Rejected notVerifiedMsg, demoState1)"
    using submitStar_freshness [OF demoMessage_time, where currentTime = 1299
        and blockTime = 1299 and H = demoDigest
        and enc = demoEnc and verify = demoVerify and address = "''A''"
        and signature = "''forged''" and star = demoStar and st = demoState1] v
    by simp
  show ?thesis using 1 2 3 by simp
qed

lemma demo_unparsable:
  "parseInt (at (split CHR '':'' ''starRegistry'') 1) = None"
  "parseInt (at (split CHR '':'' ''A:soon:starRegistry'') 1) = None"
  by code_simp+

text \<open>
  C10. When the second colon-delimited field of the message does not parse as an integer
  (\<^verbatim>\<open>parseInt\<close> gives \<^verbatim>\<open>NaN\<close>, also when there is no second field), \<^verbatim>\<open>submitStar\<close>
  rejects with the expiry message and leaves the chain as it was, whatever the verifier
  would answer: the verifier is not consulted.
\<close>

theorem submitStar_unparsable_time:
  assumes "parseInt (at (split CHR '':'' message) 1) = None"
  shows "submitStar H enc verify currentTime blockTime address message signature star st =
           (Rejected expiredMsg, st)"
  using assms by (simp add: submitStar_def elapsedOk_def)

text \<open>C10 at a message without a second field, and at one whose second field is a
  word, with a verifier that throws.\<close>

theorem submitStar_unparsable_time_witness:
  "submitStar demoDigest demoEnc demoVerify 1299 1299 ''A'' ''starRegistry'' ''sig'' demoStar
     demoState1 = (Rejected expiredMsg, demoState1) \<and>
   submitStar demoDigest demoEnc (\<lambda>m a s. None) 1299 1299 ''A'' ''A:soon:starRegistry'' ''sig''
     demoStar demoState1 = (Rejected expiredMsg, demoState1)"
  using submitStar_unparsable_time [OF demo_unparsable(1), where H = demoDigest
      and enc = demoEnc and verify = demoVerify and currentTime = 1299 and blockTime = 1299
      and address = "''A''" and signature = "''sig''" and star = demoStar and st = demoState1]
    submitStar_unparsable_time [OF demo_unparsable(2), where H = demoDigest
      and enc = demoEnc and verify = "\<lambda>m a s. None" and currentTime = 1299
      and blockTime = 1299 and address = "''A''"
      and signature = "''sig''" and star = demoStar and st = demoState1]
  by simp

section \<open>Querying by owner\<close>

lemma getProp_truthy: "getProp v k = Some w \<Longrightarrow> truthy v"
  by (cases v) simp_all

lemma starsLoop_map_filter:
  "starsLoop dec address bs stars = stars @ List.map_filter (ownedBody dec address) bs"
proof (induction bs arbitrary: stars)
  case Nil
  show ?case by (simp add: List.map_filter_simps)
next
  case (Cons b bs)
  show ?case
  proof (cases "getBData dec b")
    case None
    then show ?thesis by (simp add: Cons.IH List.map_filter_simps ownedBody_def)
  next
    case (Some v)
    show ?thesis
    proof (cases "getProp v ''owner'' = Some (JStr address)")
      case True
      then have "truthy v" by (rule getProp_truthy)
      then show ?thesis using Some True
        by (simp add: Cons.IH List.map_filter_simps ownedBody_def)
    next
      case False
      then show ?thesis using Some
        by (simp add: Cons.IH List.map_filter_simps ownedBody_def)
    qed
  qed
qed

lemma demoDec_genesis: "demoDec (demoEnc genesisData) = Some genesisData"
  by (simp add: demoDec_def demoEnc_def)

lemma demo_noB: "\<forall>b \<in> set (chainArr demoState2). ownedBody demoDec ''B'' b = None"
  by (simp add: demoState2_eq demoGenesis_def demoBlock1_def ownedBody_def getBData_def
      demoDec_def genesisData_def starData_def)

text \<open>
  C5 (amended). For every address, \<^verbatim>\<open>getStarsByWalletAddress\<close> scans the whole chain
  in ascending order, decodes each body, and returns exactly the decoded body (the object
  with \<^verbatim>\<open>owner\<close> and \<^verbatim>\<open>star\<close>) of every block whose decoded owner equals the
  address, in chain order. The genesis block, whose body has no owner, is skipped: after
  construction the result is empty for every address. An address that owns no block yields
  the empty sequence.
\<close>

theorem getStarsByWalletAddress_bodies:
  "getStarsByWalletAddress dec st address =
     Resolved (List.map_filter (ownedBody dec address) (chainArr st)) \<and>
   (dec (enc genesisData) = Some genesisData \<longrightarrow>
      getStarsByWalletAddress dec (newBlockchain H enc now) address = Resolved []) \<and>
   ((\<forall>b \<in> set (chainArr st). ownedBody dec address b = None) \<longrightarrow>
      getStarsByWalletAddress dec st address = Resolved [])"
proof (intro conjI impI)
  show 1: "getStarsByWalletAddress dec st address =
     Resolved (List.map_filter (ownedBody dec address) (chainArr st))" for st :: "'a blockchain"
    by (simp add: getStarsByWalletAddress_def starsLoop_map_filter)
  show "getStarsByWalletAddress dec (newBlockchain H enc now) address = Resolved []"
    if "dec (enc genesisData) = Some genesisData"
    using that unfolding 1
    by (simp add: newBlockchain_eq List.map_filter_simps ownedBody_def getBData_def
        sealBlock_fields newBlock_fields genesisData_def)
  show "getStarsByWalletAddress dec st address = Resolved []"
    if "\<forall>b \<in> set (chainArr st). ownedBody dec address b = None"
    using that unfolding 1 by (simp add: List.map_filter_def filter_empty_conv)
qed

text \<open>The amended claim after one star of \<^verbatim>\<open>A\<close>: the query for \<^verbatim>\<open>A\<close>, the query on
  the fresh chain, and the query for \<^verbatim>\<open>B\<close>, who submitted nothing.\<close>

theorem getStarsByWalletAddress_bodies_witness:
  "getStarsByWalletAddress demoDec demoState2 ''A'' = Resolved [starData ''A'' demoStar] \<and>
   getStarsByWalletAddress demoDec (newBlockchain demoDigest demoEnc 1000) ''A'' = Resolved [] \<and>
   getStarsByWalletAddress demoDec demoState2 ''B'' = Resolved []"
proof -
  note t = getStarsByWalletAddress_bodies [where dec = demoDec and enc = demoEnc
      and H = demoDigest and now = 1000 and st = demoState2]
  have 1: "getStarsByWalletAddress demoDec demoState2 ''A'' = Resolved [starData ''A'' demoStar]"
    using t [where address = "''A''"]
    by (simp add: demoState2_eq demoGenesis_def demoBlock1_def ownedBody_def getBData_def
        demoDec_def genesisData_def starData_def List.map_filter_simps)
  have 2: "getStarsByWalletAddress demoDec (newBlockchain demoDigest demoEnc 1000) ''A'' =
           Resolved []"
    using t [where address = "''A''"] demoDec_genesis by blast
  have 3: "getStarsByWalletAddress demoDec demoState2 ''B'' = Resolved []"
    using t [where address = "''B''"] demo_noB by blast
  show ?thesis using 1 2 3 by simp
qed

text \<open>
  C5 as stated fails: after one star of \<^verbatim>\<open>A\<close> the query returns the whole decoded body,
  owner included, where the claim has the \<^verbatim>\<open>star\<close> field alone.
\<close>

theorem getStarsByWalletAddress_star_field_counterexample:
  "getStarsByWalletAddress demoDec demoState2 ''A'' = Resolved [starData ''A'' demoStar] \<and>
   specStarsByOwner demoDec demoState2 ''A'' = [Some demoStar] \<and>
   starData ''A'' demoStar \<noteq> demoStar"
  by (simp add: getStarsByWalletAddress_def specStarsByOwner_def demoState2_eq demoGenesis_def
      demoBlock1_def ownedBody_def getBData_def demoDec_def genesisData_def starData_def
      demoStar_def List.map_filter_simps)

section \<open>Chains built by the operations\<close>














end
